theory Spec2Isabelle
  imports Main
begin

section \<open>Data model\<close>

text \<open>
  The session store of \<^verbatim>\<open>src/hooks/useAuth.tsx\<close> and the unread counter of
  \<^verbatim>\<open>src/components/NotificationHandler.tsx\<close>.

  A value that the backend hands back as an error, or that a call throws, is an opaque
  \<open>err\<close>. The \<^verbatim>\<open>User\<close> and \<^verbatim>\<open>Session\<close> types belong to the backend
  library; the hook reads \<^verbatim>\<open>session.user\<close>, \<^verbatim>\<open>user.id\<close> and the optional
  \<^verbatim>\<open>user.email\<close> only, so these are the fields kept.
\<close>

datatype err = Err string

record user =
  uid :: string
  uemail :: "string option"

record session =
  suser :: user

text \<open>
  A row of the \<^verbatim>\<open>profiles\<close> table (\<^verbatim>\<open>Database.public.Tables.profiles.Row\<close>).
  \<open>row_secret_number\<close> is optional here although the declared type is \<^verbatim>\<open>string\<close>:
  \<open>None\<close> is the \<^verbatim>\<open>null\<close> that the source's \<^verbatim>\<open>|| ''\<close> guards against.
\<close>

record row =
  row_id :: string
  row_name :: string
  row_email :: string
  row_role :: string
  row_secret_number :: "string option"
  row_is_active :: bool
  row_created_at :: string
  row_updated_at :: string

text \<open>
  The \<^verbatim>\<open>Profile\<close> interface. Its \<^verbatim>\<open>role\<close> is declared \<^verbatim>\<open>'admin' | 'member'\<close>,
  but the only producer is the cast \<^verbatim>\<open>profileData.role as 'admin' | 'member'\<close>, which
  is erased at run time: the field holds whatever string the row holds.
\<close>

record profile =
  p_id :: string
  p_name :: string
  p_email :: string
  p_role :: string
  p_secret_number :: string
  p_is_active :: bool
  p_created_at :: string
  p_updated_at :: string

text \<open>The four \<^verbatim>\<open>useState\<close> cells of \<^verbatim>\<open>useAuth\<close>.\<close>

record store =
  user :: "user option"
  session :: "session option"
  profile :: "profile option"
  loading :: bool

text \<open>Requests sent to the backend client.\<close>

datatype backend_call =
    GetSession
  | AuthSignOut
  | SignInWithPassword string string
  | AuthSignUp string string string string
  | QueryProfiles string

text \<open>Arguments of a console line.\<close>

datatype logarg =
    AStr string
  | AUndefined
  | ABool bool
  | AErr err
  | AResult "row list option" "err option"

text \<open>The callback handed to \<^verbatim>\<open>setTimeout\<close>: a call of \<^verbatim>\<open>fetchProfile\<close>.\<close>

datatype task = FetchProfile string "string option"

text \<open>
  What a stretch of code does between two suspension points, in order: writes to the four
  state cells, requests to the backend, a timer registration, console lines.
\<close>

datatype effect =
    SetSession "session option"
  | SetUser "user option"
  | SetProfile "profile option"
  | SetLoading bool
  | SetTimeout task
  | Call backend_call
  | Console string "logarg list"

text \<open>
  Where \<^verbatim>\<open>initializeAuth\<close> stands: suspended at \<^verbatim>\<open>await getSession()\<close>, at the
  \<^verbatim>\<open>await signOut()\<close> of its error branch (inside the \<^verbatim>\<open>try\<close>), at the
  \<^verbatim>\<open>await signOut()\<close> of its \<^verbatim>\<open>catch\<close>, or settled.
\<close>

datatype init_phase = AwaitSession | AwaitSignOutTry | AwaitSignOutCatch | InitSettled

text \<open>
  The world around the hook: the store, the timers registered and not yet fired (in
  registration order), the profile fetches suspended at their \<^verbatim>\<open>await\<close>, the requests
  sent to the backend so far, the console and the phase of \<^verbatim>\<open>initializeAuth\<close>.
\<close>

record world =
  st :: store
  timers :: "task list"
  inflight :: "task list"
  calls :: "backend_call list"
  console :: "(string \<times> logarg list) list"
  init :: init_phase

fun apply_effect :: "effect \<Rightarrow> world \<Rightarrow> world" where
  "apply_effect (SetSession s) w = w\<lparr>st := (st w)\<lparr>session := s\<rparr>\<rparr>"
| "apply_effect (SetUser u) w = w\<lparr>st := (st w)\<lparr>user := u\<rparr>\<rparr>"
| "apply_effect (SetProfile p) w = w\<lparr>st := (st w)\<lparr>profile := p\<rparr>\<rparr>"
| "apply_effect (SetLoading b) w = w\<lparr>st := (st w)\<lparr>loading := b\<rparr>\<rparr>"
| "apply_effect (SetTimeout t) w = w\<lparr>timers := timers w @ [t]\<rparr>"
| "apply_effect (Call c) w = w\<lparr>calls := calls w @ [c]\<rparr>"
| "apply_effect (Console m as) w = w\<lparr>console := console w @ [(m, as)]\<rparr>"

fun run :: "effect list \<Rightarrow> world \<Rightarrow> world" where
  "run [] w = w"
| "run (e # es) w = run es (apply_effect e w)"

text \<open>The four cells at the first render: nothing known, \<^verbatim>\<open>loading\<close> true.\<close>

definition init_store :: store where
  "init_store = \<lparr>user = None, session = None, profile = None, loading = True\<rparr>"

text \<open>
  An awaited call of \<^verbatim>\<open>supabase.auth\<close> returns \<^verbatim>\<open>{ error }\<close> (\<open>None\<close> for
  \<^verbatim>\<open>null\<close>) or throws.
\<close>

datatype outcome = Returns "err option" | Throws err

section \<open>initializeAuth\<close>

text \<open>
  The awaited \<^verbatim>\<open>getSession\<close> throws or yields \<^verbatim>\<open>{ data: { session }, error }\<close>.
\<close>

datatype session_result =
    GetSessionThrows err
  | GetSessionReturns "session option" "err option"

text \<open>Up to the first \<^verbatim>\<open>await\<close>: the request for the current session.\<close>

definition initializeAuth_begin :: "effect list" where
  "initializeAuth_begin = [Call GetSession]"

text \<open>The four writes that follow either \<^verbatim>\<open>await supabase.auth.signOut()\<close>.\<close>

definition initializeAuth_clear :: "effect list" where
  "initializeAuth_clear = [SetSession None, SetUser None, SetProfile None, SetLoading False]"

text \<open>The \<^verbatim>\<open>catch\<close> block up to its \<^verbatim>\<open>await\<close>.\<close>

definition initializeAuth_catch :: "err \<Rightarrow> effect list" where
  "initializeAuth_catch e = [Console ''Auth initialization error:'' [AErr e], Call AuthSignOut]"

text \<open>
  From the answer of \<^verbatim>\<open>getSession\<close> to the next suspension or the end. With no error,
  the session and the user are written; a present session registers the timer for the
  profile fetch, an absent one sets \<^verbatim>\<open>loading\<close> to false. Profile is not written on
  this path.
\<close>

definition initializeAuth_session :: "session_result \<Rightarrow> effect list \<times> init_phase" where
  "initializeAuth_session r =
     (case r of
        GetSessionThrows e \<Rightarrow> (initializeAuth_catch e, AwaitSignOutCatch)
      | GetSessionReturns s (Some e) \<Rightarrow>
          ([Console ''Session error, clearing auth state:'' [AErr e], Call AuthSignOut],
           AwaitSignOutTry)
      | GetSessionReturns s None \<Rightarrow>
          ([SetSession s, SetUser (map_option suser s)] @
           (case s of
              Some ss \<Rightarrow> [SetTimeout (FetchProfile (uid (suser ss)) (uemail (suser ss)))]
            | None \<Rightarrow> [SetLoading False]),
           InitSettled))"

text \<open>
  From the answer of an awaited \<^verbatim>\<open>signOut\<close> on. Its result is ignored when it
  returns. When it throws inside the \<^verbatim>\<open>try\<close> the \<^verbatim>\<open>catch\<close> block runs; when it
  throws inside the \<^verbatim>\<open>catch\<close> the function rejects and writes nothing.
\<close>

fun initializeAuth_signedOut :: "init_phase \<Rightarrow> outcome \<Rightarrow> effect list \<times> init_phase" where
  "initializeAuth_signedOut ph (Returns error) = (initializeAuth_clear, InitSettled)"
| "initializeAuth_signedOut AwaitSignOutTry (Throws e) = (initializeAuth_catch e, AwaitSignOutCatch)"
| "initializeAuth_signedOut ph (Throws e) = ([], InitSettled)"

text \<open>
  The hook once its mount effect has run: \<^verbatim>\<open>initializeAuth\<close> has sent its request and
  is suspended, and the auth-change callback is subscribed.
\<close>

definition init_world :: world where
  "init_world =
     run initializeAuth_begin
       \<lparr>st = init_store, timers = [], inflight = [], calls = [], console = [],
        init = AwaitSession\<rparr>"

section \<open>The auth-change callback\<close>

definition email_arg :: "string option \<Rightarrow> logarg" where
  "email_arg e = (case e of None \<Rightarrow> AUndefined | Some a \<Rightarrow> AStr a)"

text \<open>
  The callback of \<^verbatim>\<open>supabase.auth.onAuthStateChange\<close>. A present session carries its
  user, so \<^verbatim>\<open>session?.user\<close> is truthy exactly when the session is present.
\<close>

definition onAuthStateChange :: "string \<Rightarrow> session option \<Rightarrow> effect list" where
  "onAuthStateChange event s =
     [Console ''Auth state change:'' [AStr event, ABool (s \<noteq> None)],
      SetSession s,
      SetUser (map_option suser s)] @
     (case s of
        Some ss \<Rightarrow> [SetTimeout (FetchProfile (uid (suser ss)) (uemail (suser ss)))]
      | None \<Rightarrow> [SetProfile None, SetLoading False])"

section \<open>fetchProfile\<close>

text \<open>
  The awaited query either throws or yields \<^verbatim>\<open>{ data, error }\<close>, each of which may
  be \<^verbatim>\<open>null\<close>.
\<close>

datatype query_result =
    QueryThrows err
  | QueryReturns "row list option" "err option"

text \<open>\<^verbatim>\<open>profileData.secret_number || ''\<close>: the empty string and \<^verbatim>\<open>null\<close> are falsy.\<close>

definition or_empty :: "string option \<Rightarrow> string" where
  "or_empty s = (case s of None \<Rightarrow> [] | Some v \<Rightarrow> (if v = [] then [] else v))"

text \<open>The object literal passed to \<^verbatim>\<open>setProfile\<close>.\<close>

definition profile_of_row :: "row \<Rightarrow> profile" where
  "profile_of_row profileData =
     \<lparr>p_id = row_id profileData,
      p_name = row_name profileData,
      p_email = row_email profileData,
      p_role = row_role profileData,
      p_secret_number = or_empty (row_secret_number profileData),
      p_is_active = row_is_active profileData,
      p_created_at = row_created_at profileData,
      p_updated_at = row_updated_at profileData\<rparr>"

text \<open>Up to the \<^verbatim>\<open>await\<close>: the first console line and the query for the given id.\<close>

definition fetchProfile_begin :: "string \<Rightarrow> string option \<Rightarrow> effect list" where
  "fetchProfile_begin userId userEmail =
     [Console ''Fetching profile for user:'' [AStr userId, email_arg userEmail],
      Call (QueryProfiles userId)]"

text \<open>The \<^verbatim>\<open>finally\<close> block.\<close>

definition fetchProfile_finally :: "effect list" where
  "fetchProfile_finally = [Console ''Setting loading to false'' [], SetLoading False]"

text \<open>From the \<^verbatim>\<open>await\<close> on: the \<^verbatim>\<open>try\<close> body or the \<^verbatim>\<open>catch\<close>, then \<^verbatim>\<open>finally\<close>.\<close>

definition fetchProfile_resume :: "query_result \<Rightarrow> effect list" where
  "fetchProfile_resume qr =
     (case qr of
        QueryThrows e \<Rightarrow> [Console ''Error in fetchProfile:'' [AErr e], SetProfile None]
      | QueryReturns data error \<Rightarrow>
          Console ''Profile fetch result:'' [AResult data error] #
          (case error of
             Some e \<Rightarrow> [Console ''Error fetching profile:'' [AErr e], SetProfile None]
           | None \<Rightarrow>
               (case data of
                  Some (profileData # rest) \<Rightarrow>
                    [Console ''Profile found, setting profile data'' [],
                     SetProfile (Some (profile_of_row profileData))]
                | _ \<Rightarrow> [Console ''No profile data found'' [], SetProfile None])))
     @ fetchProfile_finally"

text \<open>A whole call of \<^verbatim>\<open>fetchProfile\<close>, the query answering \<open>qr\<close>.\<close>

definition fetchProfile :: "query_result \<Rightarrow> string \<Rightarrow> string option \<Rightarrow> effect list" where
  "fetchProfile qr userId userEmail = fetchProfile_begin userId userEmail @ fetchProfile_resume qr"

section \<open>The event loop\<close>

text \<open>
  One thread runs queued callbacks. The things that can happen next: the backend emits an
  auth-change event, the oldest timer fires (its \<^verbatim>\<open>fetchProfile\<close> runs up to the
  \<^verbatim>\<open>await\<close>), the query of the \<open>k\<close>-th suspended fetch completes, or an
  \<^verbatim>\<open>await\<close> of \<^verbatim>\<open>initializeAuth\<close> gets its answer. An event that has nothing
  to act on (no timer, no such fetch, \<^verbatim>\<open>initializeAuth\<close> not waiting for it) leaves
  the world as it is.
\<close>

datatype event =
    AuthStateChange string "session option"
  | TimerFires
  | QueryCompletes nat query_result
  | SessionResolves session_result
  | InitSignOutResolves outcome

fun step :: "event \<Rightarrow> world \<Rightarrow> world" where
  "step (AuthStateChange ev s) w = run (onAuthStateChange ev s) w"
| "step TimerFires w =
     (case timers w of
        [] \<Rightarrow> w
      | FetchProfile userId userEmail # ts \<Rightarrow>
          (run (fetchProfile_begin userId userEmail) (w\<lparr>timers := ts\<rparr>))
            \<lparr>inflight := inflight w @ [FetchProfile userId userEmail]\<rparr>)"
| "step (QueryCompletes k qr) w =
     (if k < length (inflight w)
      then run (fetchProfile_resume qr)
             (w\<lparr>inflight := take k (inflight w) @ drop (Suc k) (inflight w)\<rparr>)
      else w)"
| "step (SessionResolves r) w =
     (if init w = AwaitSession
      then (run (fst (initializeAuth_session r)) w)\<lparr>init := snd (initializeAuth_session r)\<rparr>
      else w)"
| "step (InitSignOutResolves out) w =
     (if init w = AwaitSignOutTry \<or> init w = AwaitSignOutCatch
      then (run (fst (initializeAuth_signedOut (init w) out)) w)
             \<lparr>init := snd (initializeAuth_signedOut (init w) out)\<rparr>
      else w)"

fun exec :: "event list \<Rightarrow> world \<Rightarrow> world" where
  "exec [] w = w"
| "exec (e # es) w = exec es (step e w)"

text \<open>Every world the loop passes through, the first one included.\<close>

fun worlds :: "event list \<Rightarrow> world \<Rightarrow> world list" where
  "worlds [] w = [w]"
| "worlds (e # es) w = w # worlds es (step e w)"

text \<open>A lookup that neither threw nor returned an error and returned one or more rows.\<close>

fun has_rows :: "query_result \<Rightarrow> bool" where
  "has_rows (QueryReturns (Some (profileData # rest)) None) = True"
| "has_rows qr = False"

text \<open>
  The two steps that write over a cleared store or clear half of a loaded one: a
  suspended fetch that completes with rows while Identity is absent, and the session
  retrieval of \<^verbatim>\<open>initializeAuth\<close> that resolves to no session while Profile is
  present.
\<close>

fun late_write :: "event \<Rightarrow> world \<Rightarrow> bool" where
  "late_write (QueryCompletes k qr) w =
     (k < length (inflight w) \<and> user (st w) = None \<and> has_rows qr)"
| "late_write (SessionResolves (GetSessionReturns None None)) w =
     (init w = AwaitSession \<and> profile (st w) \<noteq> None)"
| "late_write e w = False"

text \<open>A schedule none of whose steps is such a write.\<close>

fun no_late_write :: "event list \<Rightarrow> world \<Rightarrow> bool" where
  "no_late_write [] w = True"
| "no_late_write (e # es) w = (\<not> late_write e w \<and> no_late_write es (step e w))"

section \<open>signIn, signUp, signOut\<close>

text \<open>An async function of the hook resolves with \<^verbatim>\<open>{ error }\<close> or rejects.\<close>

datatype result = Resolved "err option" | Rejected err

definition signIn :: "(backend_call \<Rightarrow> outcome) \<Rightarrow> string \<Rightarrow> string \<Rightarrow> effect list \<times> result" where
  "signIn backend email password =
     (case backend AuthSignOut of
        Throws e \<Rightarrow> ([Call AuthSignOut, Console ''Sign in error:'' [AErr e]], Resolved (Some e))
      | Returns _ \<Rightarrow>
          (case backend (SignInWithPassword email password) of
             Throws e \<Rightarrow>
               ([Call AuthSignOut, Call (SignInWithPassword email password),
                 Console ''Sign in error:'' [AErr e]], Resolved (Some e))
           | Returns error \<Rightarrow>
               ([Call AuthSignOut, Call (SignInWithPassword email password)], Resolved error)))"

text \<open>\<open>origin\<close> is \<^verbatim>\<open>window.location.origin\<close>.\<close>

definition signUp ::
  "(backend_call \<Rightarrow> outcome) \<Rightarrow> string \<Rightarrow> string \<Rightarrow> string \<Rightarrow> string \<Rightarrow> effect list \<times> result" where
  "signUp backend origin email password name =
     (case backend (AuthSignUp email password name (origin @ ''/'')) of
        Throws e \<Rightarrow> ([Call (AuthSignUp email password name (origin @ ''/''))], Rejected e)
      | Returns error \<Rightarrow> ([Call (AuthSignUp email password name (origin @ ''/''))], Resolved error))"

definition signOut :: "(backend_call \<Rightarrow> outcome) \<Rightarrow> effect list \<times> result" where
  "signOut backend =
     (case backend AuthSignOut of
        Throws e \<Rightarrow> ([Call AuthSignOut], Rejected e)
      | Returns error \<Rightarrow> ([Call AuthSignOut], Resolved error))"

text \<open>The backend requests among a list of effects, in order.\<close>

fun requests :: "effect list \<Rightarrow> backend_call list" where
  "requests [] = []"
| "requests (Call c # es) = c # requests es"
| "requests (e # es) = requests es"

section \<open>The unread counter\<close>

text \<open>
  Modelled from the spec: the \<^verbatim>\<open>Notification\<close> type is declared in
  \<^verbatim>\<open>NotificationPanel\<close>, which is not among the sources. The handler reads the
  \<^verbatim>\<open>read\<close> flag of an entry and passes ids around; these two fields are kept.
\<close>

record notification =
  nid :: string
  read :: bool

text \<open>\<^verbatim>\<open>notifications.filter(n => !n.read).length\<close>\<close>

definition unreadNotifications :: "notification list \<Rightarrow> nat" where
  "unreadNotifications notifications = length (filter (\<lambda>n. \<not> read n) notifications)"

section \<open>Example data\<close>

definition example_user :: user where
  "example_user = \<lparr>uid = ''u1'', uemail = Some ''a@example.com''\<rparr>"

definition example_session :: session where
  "example_session = \<lparr>suser = example_user\<rparr>"

definition example_row :: row where
  "example_row =
     \<lparr>row_id = ''u1'', row_name = ''A'', row_email = ''a@example.com'', row_role = ''admin'',
      row_secret_number = Some [], row_is_active = True,
      row_created_at = ''2024-01-01'', row_updated_at = ''2024-01-02''\<rparr>"

definition other_row :: row where
  "other_row =
     \<lparr>row_id = ''u2'', row_name = ''B'', row_email = ''b@example.com'', row_role = ''owner'',
      row_secret_number = None, row_is_active = False,
      row_created_at = ''2024-02-01'', row_updated_at = ''2024-02-02''\<rparr>"

section \<open>Identity and Profile along a schedule\<close>

text \<open>With no Identity there is no Profile.\<close>

definition store_inv :: "world \<Rightarrow> bool" where
  "store_inv w = (user (st w) = None \<longrightarrow> profile (st w) = None)"

lemmas fetch_defs = fetchProfile_def fetchProfile_begin_def fetchProfile_resume_def
  fetchProfile_finally_def

lemmas init_defs = init_world_def init_store_def initializeAuth_begin_def
  initializeAuth_session_def initializeAuth_clear_def initializeAuth_catch_def

lemma run_append: "run (xs @ ys) w = run ys (run xs w)"
  by (induction xs arbitrary: w) simp_all

lemma run_resume_user: "user (st (run (fetchProfile_resume qr) w)) = user (st w)"
  by (simp add: fetchProfile_resume_def fetchProfile_finally_def
      split: query_result.splits option.splits list.splits)

lemma run_resume_profile:
  "\<not> has_rows qr \<Longrightarrow> profile (st (run (fetchProfile_resume qr) w)) = None"
  by (cases qr rule: has_rows.cases)
    (simp_all add: fetchProfile_resume_def fetchProfile_finally_def split: option.splits)

lemma step_query_inv:
  assumes "store_inv w" and "\<not> late_write (QueryCompletes k qr) w"
  shows "store_inv (step (QueryCompletes k qr) w)"
proof (cases "k < length (inflight w)")
  case False
  with assms(1) show ?thesis by simp
next
  case inflight: True
  show ?thesis
  proof (cases "has_rows qr")
    case True
    with assms(2) inflight have "user (st w) \<noteq> None" by simp
    with inflight show ?thesis by (auto simp: store_inv_def run_resume_user)
  next
    case False
    with inflight show ?thesis by (simp add: store_inv_def run_resume_profile)
  qed
qed

lemma step_session_inv:
  assumes "store_inv w" and "\<not> late_write (SessionResolves r) w"
  shows "store_inv (step (SessionResolves r) w)"
proof (cases "init w = AwaitSession")
  case False
  with assms(1) show ?thesis by simp
next
  case True
  show ?thesis
  proof (cases r)
    case (GetSessionThrows e)
    with True assms(1) show ?thesis
      by (simp add: store_inv_def initializeAuth_session_def initializeAuth_catch_def)
  next
    case (GetSessionReturns s error)
    show ?thesis
    proof (cases error)
      case (Some e)
      with True assms(1) GetSessionReturns show ?thesis
        by (simp add: store_inv_def initializeAuth_session_def)
    next
      case None
      show ?thesis
      proof (cases s)
        case (Some ss)
        with True GetSessionReturns \<open>error = None\<close> show ?thesis
          by (simp add: store_inv_def initializeAuth_session_def)
      next
        case no_session: None
        with True GetSessionReturns \<open>error = None\<close> assms(2) have "profile (st w) = None"
          by simp
        with True GetSessionReturns \<open>error = None\<close> no_session show ?thesis
          by (simp add: store_inv_def initializeAuth_session_def)
      qed
    qed
  qed
qed

lemma step_signedOut_inv:
  assumes "store_inv w"
  shows "store_inv (step (InitSignOutResolves out) w)"
proof (cases "init w = AwaitSignOutTry \<or> init w = AwaitSignOutCatch")
  case False
  with assms show ?thesis by simp
next
  case True
  with assms show ?thesis
    by (cases "(init w, out)" rule: initializeAuth_signedOut.cases)
      (auto simp: store_inv_def initializeAuth_clear_def initializeAuth_catch_def)
qed

lemma step_preserves_inv:
  assumes "store_inv w" and "\<not> late_write e w"
  shows "store_inv (step e w)"
proof (cases e)
  case (AuthStateChange ev s)
  then show ?thesis
    using assms(1) by (cases s) (simp_all add: store_inv_def onAuthStateChange_def)
next
  case TimerFires
  then show ?thesis
    using assms(1)
    by (auto simp: store_inv_def fetchProfile_begin_def split: list.splits task.splits)
next
  case (QueryCompletes k qr)
  show ?thesis using assms unfolding QueryCompletes by (rule step_query_inv)
next
  case (SessionResolves r)
  show ?thesis using assms unfolding SessionResolves by (rule step_session_inv)
next
  case (InitSignOutResolves out)
  show ?thesis using assms(1) unfolding InitSignOutResolves by (rule step_signedOut_inv)
qed

lemma worlds_inv:
  "store_inv w0 \<Longrightarrow> no_late_write evs w0 \<Longrightarrow> w \<in> set (worlds evs w0) \<Longrightarrow> store_inv w"
proof (induction evs arbitrary: w0)
  case Nil
  then show ?case by simp
next
  case (Cons e es)
  from Cons.prems(2) have guard: "\<not> late_write e w0" and rest: "no_late_write es (step e w0)"
    by simp_all
  have "store_inv (step e w0)"
    using Cons.prems(1) guard by (rule step_preserves_inv)
  with Cons.IH rest have "w \<in> set (worlds es (step e w0)) \<Longrightarrow> store_inv w"
    by blast
  with Cons.prems(1,3) show ?case by auto
qed

lemma init_inv: "store_inv init_world"
  by (simp add: store_inv_def init_defs)

text \<open>
  Each of the two steps left out does break the invariant, whatever the world it is
  taken in: none of them could be admitted.
\<close>

lemma late_write_breaks:
  "late_write e w \<Longrightarrow> user (st (step e w)) = None \<and> profile (st (step e w)) \<noteq> None"
proof (induction e w rule: late_write.induct)
  case (1 k qr w)
  then show ?case
    by (cases qr rule: has_rows.cases)
      (simp_all add: fetchProfile_resume_def fetchProfile_finally_def)
next
  case (2 w)
  then show ?case by (simp add: initializeAuth_session_def)
qed simp_all

text \<open>
  C1, as the code has it: along every schedule of auth-change events, timer firings,
  query completions and continuations of \<^verbatim>\<open>initializeAuth\<close> in which no profile
  fetch completes with rows while Identity is absent, and the session retrieval of
  \<^verbatim>\<open>initializeAuth\<close> does not resolve to no session while Profile is present, every
  world the loop passes through has Profile absent whenever Identity is absent.
\<close>

theorem profile_absent_without_identity:
  assumes "no_late_write evs init_world"
    and "w \<in> set (worlds evs init_world)"
    and "user (st w) = None"
  shows "profile (st w) = None"
  using worlds_inv [OF init_inv assms(1) assms(2)] assms(3) by (simp add: store_inv_def)

text \<open>
  The theorem at a schedule on which the session retrieval finds no session, a sign-in
  starts a fetch, a sign-out arrives while the fetch is suspended and the fetch then
  completes with zero rows: the last world has neither Identity nor Profile.
\<close>

theorem profile_absent_without_identity_witness:
  "no_late_write
     [SessionResolves (GetSessionReturns None None),
      AuthStateChange ''SIGNED_IN'' (Some example_session), TimerFires,
      AuthStateChange ''SIGNED_OUT'' None,
      QueryCompletes 0 (QueryReturns (Some []) None)] init_world \<and>
   exec [SessionResolves (GetSessionReturns None None),
      AuthStateChange ''SIGNED_IN'' (Some example_session), TimerFires,
      AuthStateChange ''SIGNED_OUT'' None,
      QueryCompletes 0 (QueryReturns (Some []) None)] init_world
     \<in> set (worlds [SessionResolves (GetSessionReturns None None),
      AuthStateChange ''SIGNED_IN'' (Some example_session), TimerFires,
      AuthStateChange ''SIGNED_OUT'' None,
      QueryCompletes 0 (QueryReturns (Some []) None)] init_world) \<and>
   user (st (exec [SessionResolves (GetSessionReturns None None),
      AuthStateChange ''SIGNED_IN'' (Some example_session), TimerFires,
      AuthStateChange ''SIGNED_OUT'' None,
      QueryCompletes 0 (QueryReturns (Some []) None)] init_world)) = None \<and>
   profile (st (exec [SessionResolves (GetSessionReturns None None),
      AuthStateChange ''SIGNED_IN'' (Some example_session), TimerFires,
      AuthStateChange ''SIGNED_OUT'' None,
      QueryCompletes 0 (QueryReturns (Some []) None)] init_world)) = None"
proof -
  let ?evs = "[SessionResolves (GetSessionReturns None None),
      AuthStateChange ''SIGNED_IN'' (Some example_session), TimerFires,
      AuthStateChange ''SIGNED_OUT'' None,
      QueryCompletes 0 (QueryReturns (Some []) None)]"
  have a: "no_late_write ?evs init_world"
    by (simp add: init_defs onAuthStateChange_def fetch_defs)
  have b: "exec ?evs init_world \<in> set (worlds ?evs init_world)"
    by simp
  have c: "user (st (exec ?evs init_world)) = None"
    by (simp add: init_defs onAuthStateChange_def fetch_defs)
  from profile_absent_without_identity [OF a b c] a b c show ?thesis
    by simp
qed

text \<open>
  C1 as stated fails: sign in, let the timer start the fetch, sign out, and only then let
  the query complete with one row. Identity is absent and Profile is present. The same
  holds when a profile is loaded and the session retrieval of \<^verbatim>\<open>initializeAuth\<close>
  then resolves to no session.
\<close>

theorem stale_fetch_counterexample:
  "user (st (exec [AuthStateChange ''SIGNED_IN'' (Some example_session), TimerFires,
      AuthStateChange ''SIGNED_OUT'' None,
      QueryCompletes 0 (QueryReturns (Some [example_row]) None)] init_world)) = None \<and>
   profile (st (exec [AuthStateChange ''SIGNED_IN'' (Some example_session), TimerFires,
      AuthStateChange ''SIGNED_OUT'' None,
      QueryCompletes 0 (QueryReturns (Some [example_row]) None)] init_world))
     = Some (profile_of_row example_row) \<and>
   user (st (exec [AuthStateChange ''SIGNED_IN'' (Some example_session), TimerFires,
      QueryCompletes 0 (QueryReturns (Some [example_row]) None),
      SessionResolves (GetSessionReturns None None)] init_world)) = None \<and>
   profile (st (exec [AuthStateChange ''SIGNED_IN'' (Some example_session), TimerFires,
      QueryCompletes 0 (QueryReturns (Some [example_row]) None),
      SessionResolves (GetSessionReturns None None)] init_world))
     = Some (profile_of_row example_row)"
  by (simp add: init_defs onAuthStateChange_def fetch_defs)

section \<open>What a profile fetch leaves in the store\<close>

text \<open>
  C2, as the code has it: when the lookup of a profile fetch completes, Profile is present
  if and only if the lookup neither threw nor returned an error and returned one or more
  rows; with Identity present at that moment this reads: Profile is present if and only
  if Identity is present and the lookup succeeded with one or more rows. Profile is then
  the first row, field by field, the secret number replaced by the empty string when
  falsy. With zero rows, no data, an error or an exception Profile is absent. The fetch
  does not touch Identity, which stays present if it was.
\<close>

theorem profile_present_iff_rows:
  "user (st (run (fetchProfile qr userId userEmail) w)) = user (st w) \<and>
   (profile (st (run (fetchProfile qr userId userEmail) w)) \<noteq> None)
     = (\<exists>profileData rest. qr = QueryReturns (Some (profileData # rest)) None) \<and>
   (user (st w) \<noteq> None \<longrightarrow>
      (profile (st (run (fetchProfile qr userId userEmail) w)) \<noteq> None)
        = (user (st (run (fetchProfile qr userId userEmail) w)) \<noteq> None \<and>
           (\<exists>profileData rest. qr = QueryReturns (Some (profileData # rest)) None))) \<and>
   profile (st (run (fetchProfile (QueryReturns (Some (profileData # rest)) None) userId userEmail) w))
     = Some \<lparr>p_id = row_id profileData,
             p_name = row_name profileData,
             p_email = row_email profileData,
             p_role = row_role profileData,
             p_secret_number = (case row_secret_number profileData of None \<Rightarrow> [] | Some v \<Rightarrow> v),
             p_is_active = row_is_active profileData,
             p_created_at = row_created_at profileData,
             p_updated_at = row_updated_at profileData\<rparr>"
proof -
  have unchanged: "user (st (run (fetchProfile qr userId userEmail) w)) = user (st w)"
    by (simp add: fetchProfile_def run_append run_resume_user fetchProfile_begin_def)
  have present: "(profile (st (run (fetchProfile qr userId userEmail) w)) \<noteq> None)
     = (\<exists>profileData rest. qr = QueryReturns (Some (profileData # rest)) None)"
  proof (cases qr)
    case (QueryThrows e)
    then show ?thesis by (simp add: fetch_defs)
  next
    case (QueryReturns data error)
    show ?thesis
    proof (cases error)
      case (Some e)
      with QueryReturns show ?thesis by (simp add: fetch_defs)
    next
      case None
      with QueryReturns show ?thesis
        by (simp add: fetch_defs split: option.splits list.splits)
    qed
  qed
  have first: "profile (st (run (fetchProfile (QueryReturns (Some (profileData # rest)) None) userId userEmail) w))
     = Some \<lparr>p_id = row_id profileData,
             p_name = row_name profileData,
             p_email = row_email profileData,
             p_role = row_role profileData,
             p_secret_number = (case row_secret_number profileData of None \<Rightarrow> [] | Some v \<Rightarrow> v),
             p_is_active = row_is_active profileData,
             p_created_at = row_created_at profileData,
             p_updated_at = row_updated_at profileData\<rparr>"
    by (simp add: fetch_defs profile_of_row_def or_empty_def split: option.splits)
  from unchanged present first show ?thesis
    by simp
qed

text \<open>
  The theorem after a sign-in, for a lookup that returns zero rows: Identity is present
  before and after, Profile is absent.
\<close>

theorem profile_present_iff_rows_witness:
  "user (st (step (AuthStateChange ''SIGNED_IN'' (Some example_session)) init_world)) \<noteq> None \<and>
   user (st (run (fetchProfile (QueryReturns (Some []) None) ''u1'' (Some ''a@example.com''))
       (step (AuthStateChange ''SIGNED_IN'' (Some example_session)) init_world))) \<noteq> None \<and>
   profile (st (run (fetchProfile (QueryReturns (Some []) None) ''u1'' (Some ''a@example.com''))
       (step (AuthStateChange ''SIGNED_IN'' (Some example_session)) init_world))) = None"
  using profile_present_iff_rows [of "QueryReturns (Some []) None" "''u1''" "Some ''a@example.com''"
      "step (AuthStateChange ''SIGNED_IN'' (Some example_session)) init_world"]
  by (simp add: init_defs onAuthStateChange_def)

text \<open>
  C2 as stated fails: after a sign-in, a lookup that succeeds with two rows leaves
  Profile present, built from the first of them; and a lookup that completes with a row
  after the sign-out leaves Profile present with Identity absent.
\<close>

theorem two_rows_counterexample:
  "user (st (exec [AuthStateChange ''SIGNED_IN'' (Some example_session), TimerFires,
      QueryCompletes 0 (QueryReturns (Some [example_row, example_row\<lparr>row_name := ''A2''\<rparr>]) None)]
      init_world)) = Some example_user \<and>
   profile (st (exec [AuthStateChange ''SIGNED_IN'' (Some example_session), TimerFires,
      QueryCompletes 0 (QueryReturns (Some [example_row, example_row\<lparr>row_name := ''A2''\<rparr>]) None)]
      init_world)) = Some (profile_of_row example_row) \<and>
   user (st (exec [AuthStateChange ''SIGNED_IN'' (Some example_session),
      AuthStateChange ''SIGNED_OUT'' None, TimerFires,
      QueryCompletes 0 (QueryReturns (Some [example_row]) None)] init_world)) = None \<and>
   map_option p_id (profile (st (exec [AuthStateChange ''SIGNED_IN'' (Some example_session),
      AuthStateChange ''SIGNED_OUT'' None, TimerFires,
      QueryCompletes 0 (QueryReturns (Some [example_row]) None)] init_world))) = Some ''u1''"
  by (simp add: fetch_defs init_defs onAuthStateChange_def example_session_def
      profile_of_row_def example_row_def)

text \<open>
  C5: what \<^verbatim>\<open>fetchProfile\<close> does for each query result. A query error, an exception,
  zero rows and missing data all leave Profile absent. One or more rows set Profile from
  the first row, every field copied, the role string passed through as it is and the
  secret number replaced by the empty string when it is falsy. Whatever the result, the
  effects of the call end with the one and only write to Loading, which sets it to false.
\<close>

theorem fetchProfile_outcomes:
  "profile (st (run (fetchProfile (QueryReturns data (Some e)) userId userEmail) w)) = None \<and>
   profile (st (run (fetchProfile (QueryThrows e) userId userEmail) w)) = None \<and>
   profile (st (run (fetchProfile (QueryReturns (Some []) None) userId userEmail) w)) = None \<and>
   profile (st (run (fetchProfile (QueryReturns None None) userId userEmail) w)) = None \<and>
   profile (st (run (fetchProfile (QueryReturns (Some (profileData # rest)) None) userId userEmail) w))
     = Some (profile_of_row profileData) \<and>
   profile (st (run (fetchProfile (QueryReturns (Some (profileData # rest)) None) userId userEmail) w))
     = Some \<lparr>p_id = row_id profileData,
        p_name = row_name profileData,
        p_email = row_email profileData,
        p_role = row_role profileData,
        p_secret_number = (case row_secret_number profileData of None \<Rightarrow> [] | Some v \<Rightarrow> v),
        p_is_active = row_is_active profileData,
        p_created_at = row_created_at profileData,
        p_updated_at = row_updated_at profileData\<rparr> \<and>
   p_role (profile_of_row profileData) = row_role profileData \<and>
   p_secret_number (profile_of_row profileData)
     = (case row_secret_number profileData of None \<Rightarrow> [] | Some v \<Rightarrow> v) \<and>
   (\<exists>pre. fetchProfile qr userId userEmail = pre @ [SetLoading False] \<and>
         (\<forall>b. SetLoading b \<notin> set pre)) \<and>
   loading (st (run (fetchProfile qr userId userEmail) w)) = False"
proof -
  have fields: "profile_of_row profileData
     = \<lparr>p_id = row_id profileData,
        p_name = row_name profileData,
        p_email = row_email profileData,
        p_role = row_role profileData,
        p_secret_number = (case row_secret_number profileData of None \<Rightarrow> [] | Some v \<Rightarrow> v),
        p_is_active = row_is_active profileData,
        p_created_at = row_created_at profileData,
        p_updated_at = row_updated_at profileData\<rparr>"
    by (simp add: profile_of_row_def or_empty_def split: option.splits)
  have last_write: "\<exists>pre. fetchProfile qr userId userEmail = pre @ [SetLoading False] \<and>
         (\<forall>b. SetLoading b \<notin> set pre)"
    by (simp add: fetch_defs split: query_result.splits option.splits list.splits)
  have loaded: "loading (st (run (fetchProfile qr userId userEmail) w)) = False"
    by (simp add: fetch_defs split: query_result.splits option.splits list.splits)
  have branches:
    "profile (st (run (fetchProfile (QueryReturns data (Some e)) userId userEmail) w)) = None"
    "profile (st (run (fetchProfile (QueryThrows e) userId userEmail) w)) = None"
    "profile (st (run (fetchProfile (QueryReturns (Some []) None) userId userEmail) w)) = None"
    "profile (st (run (fetchProfile (QueryReturns None None) userId userEmail) w)) = None"
    "profile (st (run (fetchProfile (QueryReturns (Some (profileData # rest)) None) userId userEmail) w))
       = Some (profile_of_row profileData)"
    by (simp_all add: fetch_defs)
  from fields branches(5)
  have stored: "profile (st (run (fetchProfile (QueryReturns (Some (profileData # rest)) None) userId userEmail) w))
     = Some \<lparr>p_id = row_id profileData,
        p_name = row_name profileData,
        p_email = row_email profileData,
        p_role = row_role profileData,
        p_secret_number = (case row_secret_number profileData of None \<Rightarrow> [] | Some v \<Rightarrow> v),
        p_is_active = row_is_active profileData,
        p_created_at = row_created_at profileData,
        p_updated_at = row_updated_at profileData\<rparr>"
    by simp
  from fields have "p_role (profile_of_row profileData) = row_role profileData"
    and "p_secret_number (profile_of_row profileData)
       = (case row_secret_number profileData of None \<Rightarrow> [] | Some v \<Rightarrow> v)"
    by simp_all
  with stored last_write loaded branches show ?thesis
    by (intro conjI)
qed

text \<open>
  C9: the world that \<^verbatim>\<open>fetchProfile\<close> leaves does not depend on its
  \<^verbatim>\<open>userEmail\<close> argument, the console apart: two calls that differ in the email only
  leave the same store, timers, suspended fetches and backend requests.
\<close>

theorem fetchProfile_ignores_email:
  "st (run (fetchProfile qr userId userEmail) w)
     = st (run (fetchProfile qr userId userEmail') w) \<and>
   timers (run (fetchProfile qr userId userEmail) w)
     = timers (run (fetchProfile qr userId userEmail') w) \<and>
   inflight (run (fetchProfile qr userId userEmail) w)
     = inflight (run (fetchProfile qr userId userEmail') w) \<and>
   calls (run (fetchProfile qr userId userEmail) w)
     = calls (run (fetchProfile qr userId userEmail') w)"
proof -
  let ?w = "\<lambda>e. run (fetchProfile_begin userId e) w"
  have started: "st (?w e) = st w" "timers (?w e) = timers w" "inflight (?w e) = inflight w"
    "calls (?w e) = calls w @ [QueryProfiles userId]" for e
    by (simp_all add: fetchProfile_begin_def)
  have resume: "st (run (fetchProfile_resume qr) a) = st (run (fetchProfile_resume qr) b) \<and>
      timers (run (fetchProfile_resume qr) a) = timers (run (fetchProfile_resume qr) b) \<and>
      inflight (run (fetchProfile_resume qr) a) = inflight (run (fetchProfile_resume qr) b) \<and>
      calls (run (fetchProfile_resume qr) a) = calls (run (fetchProfile_resume qr) b)"
    if "st a = st b" "timers a = timers b" "inflight a = inflight b" "calls a = calls b" for a b
    using that
    by (simp add: fetchProfile_resume_def fetchProfile_finally_def
        split: query_result.splits option.splits list.splits)
  show ?thesis
    unfolding fetchProfile_def run_append
    by (rule resume) (simp_all only: started)
qed

text \<open>
  C10: with a non-empty result every field of Profile comes from the first row, whatever
  the \<^verbatim>\<open>userId\<close> argument, the other rows and the world; the \<^verbatim>\<open>userId\<close> argument
  is not written anywhere. A fetch for \<open>u1\<close> that is answered with a row of id \<open>u2\<close>
  stores a Profile of id \<open>u2\<close>.
\<close>

theorem profile_from_first_row:
  "profile (st (run (fetchProfile (QueryReturns (Some (profileData # rest)) None) userId userEmail) w))
     = Some \<lparr>p_id = row_id profileData,
             p_name = row_name profileData,
             p_email = row_email profileData,
             p_role = row_role profileData,
             p_secret_number = (case row_secret_number profileData of None \<Rightarrow> [] | Some v \<Rightarrow> v),
             p_is_active = row_is_active profileData,
             p_created_at = row_created_at profileData,
             p_updated_at = row_updated_at profileData\<rparr> \<and>
   profile (st (run (fetchProfile (QueryReturns (Some (profileData # rest)) None) userId userEmail) w))
     = Some (profile_of_row profileData) \<and>
   p_id (profile_of_row profileData) = row_id profileData \<and>
   map_option p_id
     (profile (st (run (fetchProfile (QueryReturns (Some [other_row]) None) ''u1'' None) init_world)))
     = Some ''u2''"
  by (simp add: fetch_defs profile_of_row_def or_empty_def other_row_def split: option.splits)

section \<open>What the auth-change callback does\<close>

text \<open>
  C4, as the code has it: on an event with a present session the callback sets Session
  and Identity from the session and registers a timer for the profile fetch. It writes
  neither Profile nor Loading: both have, when the callback returns, the values they had
  when it was called.
\<close>

theorem auth_present_handler:
  "st (run (onAuthStateChange ev (Some ss)) w)
     = (st w)\<lparr>session := Some ss, user := Some (suser ss)\<rparr> \<and>
   profile (st (run (onAuthStateChange ev (Some ss)) w)) = profile (st w) \<and>
   loading (st (run (onAuthStateChange ev (Some ss)) w)) = loading (st w) \<and>
   timers (run (onAuthStateChange ev (Some ss)) w)
     = timers w @ [FetchProfile (uid (suser ss)) (uemail (suser ss))] \<and>
   (\<forall>p. SetProfile p \<notin> set (onAuthStateChange ev (Some ss))) \<and>
   (\<forall>b. SetLoading b \<notin> set (onAuthStateChange ev (Some ss)))"
  by (simp add: onAuthStateChange_def)

text \<open>
  C4 as stated fails: once a sign-in has loaded a profile, a further event with a present
  session leaves Profile present and Loading false.
\<close>

theorem no_reset_counterexample:
  "profile (st (exec [AuthStateChange ''SIGNED_IN'' (Some example_session), TimerFires,
      QueryCompletes 0 (QueryReturns (Some [example_row]) None),
      AuthStateChange ''TOKEN_REFRESHED'' (Some example_session)] init_world))
     = Some (profile_of_row example_row) \<and>
   loading (st (exec [AuthStateChange ''SIGNED_IN'' (Some example_session), TimerFires,
      QueryCompletes 0 (QueryReturns (Some [example_row]) None),
      AuthStateChange ''TOKEN_REFRESHED'' (Some example_session)] init_world)) = False"
  by (simp add: init_defs onAuthStateChange_def fetch_defs)

text \<open>
  C7: the callback sends no request to the backend and suspends nothing. With a present
  session it appends one timer for the fetch, with an absent one none; the query of a
  fetch is sent when its timer fires, which is a later turn of the loop.
\<close>

theorem callback_defers_fetch:
  "requests (onAuthStateChange ev s) = [] \<and>
   calls (step (AuthStateChange ev s) w) = calls w \<and>
   inflight (step (AuthStateChange ev s) w) = inflight w \<and>
   timers (step (AuthStateChange ev (Some ss)) w)
     = timers w @ [FetchProfile (uid (suser ss)) (uemail (suser ss))] \<and>
   timers (step (AuthStateChange ev None) w) = timers w \<and>
   calls (step TimerFires (w\<lparr>timers := FetchProfile userId userEmail # ts\<rparr>))
     = calls w @ [QueryProfiles userId]"
  by (simp add: onAuthStateChange_def fetchProfile_begin_def split: option.splits)

section \<open>The public operations\<close>

text \<open>
  C3: with a backend whose calls throw, \<^verbatim>\<open>signOut\<close> and \<^verbatim>\<open>signUp\<close> reject with
  the thrown value instead of returning it, while \<^verbatim>\<open>signIn\<close>, which has the
  \<^verbatim>\<open>try\<close>/\<^verbatim>\<open>catch\<close>, resolves with it; \<^verbatim>\<open>signIn\<close> resolves whatever the
  backend does.
\<close>

theorem signOut_signUp_reject:
  "snd (signOut (\<lambda>c. Throws (Err ''Failed to fetch''))) = Rejected (Err ''Failed to fetch'') \<and>
   snd (signUp (\<lambda>c. Throws (Err ''Failed to fetch'')) ''https://app.example''
          ''a@example.com'' ''pw'' ''A'') = Rejected (Err ''Failed to fetch'') \<and>
   snd (signIn (\<lambda>c. Throws (Err ''Failed to fetch'')) ''a@example.com'' ''pw'')
     = Resolved (Some (Err ''Failed to fetch'')) \<and>
   (\<exists>error. snd (signIn backend email password) = Resolved error)"
  by (simp add: signOut_def signUp_def signIn_def split: outcome.splits)

text \<open>
  C6: the requests of \<^verbatim>\<open>signIn\<close>, for every email, password and backend. The
  sign-out request is always the first one. The sign-in request follows it whenever the
  sign-out call returns, with an error or without; when the sign-out call throws, no
  sign-in request is sent at all.
\<close>

theorem signIn_requests:
  "requests (fst (signIn backend email password)) =
     (case backend AuthSignOut of
        Throws e \<Rightarrow> [AuthSignOut]
      | Returns error \<Rightarrow> [AuthSignOut, SignInWithPassword email password])"
  by (simp add: signIn_def split: outcome.splits)

section \<open>The unread count\<close>

text \<open>
  C8: the unread count is the number of positions of the list whose entry has its read
  flag false.
\<close>

theorem unreadNotifications_count:
  "unreadNotifications notifications
     = card {i. i < length notifications \<and> \<not> read (notifications ! i)}"
  by (simp add: unreadNotifications_def length_filter_conv_card)

end
